theory Spec2Isabelle
  imports Complex_Main "HOL-Library.Sublist"
begin

section \<open>The bitmovin provider of the video transcoding API\<close>

text \<open>
  A shallow embedding of \<^verbatim>\<open>provider/bitmovin/bitmovin.go\<close>. Go strings are byte strings
  (\<^typ>\<open>string\<close>); a Go pointer that may be nil is an \<^typ>\<open>'a option\<close>; a panic is a value of
  its own, so that "returns an error" and "panics" are different results of the model.
\<close>

subsection \<open>Errors, panics and results\<close>

text \<open>
  The error values the adapter can hand to its caller:
  \<^item> \<open>errorString t\<close>: the value built by \<^verbatim>\<open>errors.New(t)\<close> and \<^verbatim>\<open>fmt.Errorf\<close>, with its text;
  \<^item> \<open>NumError f n r\<close>: the \<^verbatim>\<open>*strconv.NumError{Func: f, Num: n, Err: r}\<close> of \<^verbatim>\<open>strconv.Atoi\<close>;
  \<^item> \<open>Forwarded t\<close>: an error made by a collaborator (the SDK's transport, \<^verbatim>\<open>url.Parse\<close>)
    that the adapter passes on as it is.
\<close>

datatype error = errorString string | NumError string string string | Forwarded string

datatype panic = NilPointerDereference | IndexOutOfRange

text \<open>
  A Go function returning \<^verbatim>\<open>(T, error)\<close>: \<open>Ok v\<close> is \<^verbatim>\<open>return v, nil\<close>, \<open>Err e\<close> is the
  return of the zero value(s) together with the non-nil error \<open>e\<close>, \<open>Panic p\<close> is a run-time
  panic, which returns nothing.
\<close>

datatype 'a result = Ok 'a | Err error | Panic panic

subsection \<open>The standard library functions the adapter calls\<close>

text \<open>
  \<^verbatim>\<open>strings.ToLower\<close>. A byte in \<^verbatim>\<open>'A'..'Z'\<close> gets \<^verbatim>\<open>'a' - 'A'\<close> added, which is all Go does to a
  string of ASCII bytes. On a string with other bytes Go lower-cases rune by rune; two
  runes outside ASCII have a lower case inside it: U+0130 (the bytes 196, 176) becomes
  \<^verbatim>\<open>i\<close> and U+212A (the bytes 226, 132, 170) becomes \<^verbatim>\<open>k\<close>. Every other byte from 128 on is
  kept here, where Go writes the lower case of the rune, or U+FFFD for a byte that is no
  rune, which again are bytes from 128 on: the result equals an ASCII string here exactly
  when it does in Go, and the adapter only compares it with ASCII strings.
\<close>

definition toLowerByte :: "char \<Rightarrow> char" where
  "toLowerByte c =
     (if (65::nat) \<le> of_char c \<and> of_char c \<le> (90::nat) then char_of (of_char c + (32::nat)) else c)"

fun ToLower :: "string \<Rightarrow> string" where
  "ToLower [] = []"
| "ToLower (c # cs) =
     (if of_char c = (196::nat) \<and> map of_char (take 1 cs) = [176::nat]
      then CHR ''i'' # ToLower (drop 1 cs)
      else if of_char c = (226::nat) \<and> map of_char (take 2 cs) = [132, 170::nat]
      then CHR ''k'' # ToLower (drop 2 cs)
      else toLowerByte c # ToLower cs)"

text \<open>
  \<^verbatim>\<open>strconv.Atoi\<close> where \<^verbatim>\<open>int\<close> has 64 bits: an optional sign, then one or more decimal
  digits. The digits are read from the left into an unsigned 64-bit number: a byte that is
  no digit is a syntax error, and so is an empty string of digits; a number that leaves
  the 64 bits is a range error, reported where it happens, before any later byte is looked
  at. A value outside \<open>[-2^63, 2^63)\<close> is a range error too. The error carries the function
  name and the whole input.
\<close>

definition isDigit :: "char \<Rightarrow> bool" where
  "isDigit c = ((48::nat) \<le> of_char c \<and> of_char c \<le> (57::nat))"

fun digitsValue :: "string \<Rightarrow> nat \<Rightarrow> string + nat" where
  "digitsValue [] acc = Inr acc"
| "digitsValue (c # cs) acc =
     (if isDigit c
      then (if 1844674407370955162 \<le> acc \<or> 18446744073709551615 < 10 * acc + (of_char c - 48)
            then Inl ''value out of range''
            else digitsValue cs (10 * acc + (of_char c - 48)))
      else Inl ''invalid syntax'')"

definition Atoi :: "string \<Rightarrow> error + int" where
  "Atoi s =
     (let neg = (case s of [] \<Rightarrow> False | c # _ \<Rightarrow> c = CHR ''-'');
          body = (case s of [] \<Rightarrow> [] | c # r \<Rightarrow> if c = CHR ''+'' \<or> c = CHR ''-'' then r else s)
      in if body = [] then Inl (NumError ''Atoi'' s ''invalid syntax'')
         else (case digitsValue body 0 of
                 Inl reason \<Rightarrow> Inl (NumError ''Atoi'' s reason)
               | Inr n \<Rightarrow>
                   (let v = (if neg then - int n else int n)
                    in if v < - (2 ^ 63) \<or> 2 ^ 63 \<le> v
                       then Inl (NumError ''Atoi'' s ''value out of range'')
                       else Inr v)))"

text \<open>Arithmetic on \<^verbatim>\<open>int64\<close> wraps around.\<close>

definition int64 :: "int \<Rightarrow> int" where
  "int64 x = (x + 2 ^ 63) mod 2 ^ 64 - 2 ^ 63"

text \<open>
  \<^verbatim>\<open>strings.Split(s, sep)\<close> for a separator of one byte, which is how the adapter calls it:
  the pieces of \<open>s\<close> between the occurrences of \<open>sep\<close>.
\<close>

fun Split :: "string \<Rightarrow> char \<Rightarrow> string list" where
  "Split [] sep = [[]]"
| "Split (c # cs) sep =
     (if c = sep then [] # Split cs sep
      else (case Split cs sep of [] \<Rightarrow> [[c]] | x # xs \<Rightarrow> (c # x) # xs))"

definition TrimSuffix :: "string \<Rightarrow> string \<Rightarrow> string" where
  "TrimSuffix s suf = (if suffix suf s then take (length s - length suf) s else s)"

definition TrimPrefix :: "string \<Rightarrow> string \<Rightarrow> string" where
  "TrimPrefix s pre = (if prefix pre s then drop (length pre) s else s)"

text \<open>The two fields of \<^verbatim>\<open>url.URL\<close> that the adapter reads.\<close>

record URL =
  Host :: string
  Path :: string

subsection \<open>The data model\<close>

text \<open>The preset of the orchestrator (\<^verbatim>\<open>db.Preset\<close>): every field is a string.\<close>

record VideoPreset =
  Video_Codec :: string
  Video_Profile :: string
  Video_ProfileLevel :: string
  Video_Width :: string
  Video_Height :: string
  Video_Bitrate :: string
  Video_GopSize :: string

record AudioPreset =
  Audio_Codec :: string
  Audio_Bitrate :: string

record Preset =
  Video :: VideoPreset
  Audio :: AudioPreset

text \<open>
  The constants of \<^verbatim>\<open>bitmovintypes\<close> that the adapter names. The string behind each
  \<^verbatim>\<open>H264Level\<close> constant is declared in the SDK, not in the adapter: the functions below take
  it as the parameter \<open>lv\<close>.
\<close>

datatype H264Profile = H264ProfileHigh | H264ProfileMain | H264ProfileBaseline

datatype H264Level =
    H264Level1 | H264Level1b | H264Level1_1 | H264Level1_2 | H264Level1_3
  | H264Level2 | H264Level2_1 | H264Level2_2
  | H264Level3 | H264Level3_1 | H264Level3_2
  | H264Level4 | H264Level4_1 | H264Level4_2
  | H264Level5 | H264Level5_1 | H264Level5_2

datatype AWSCloudRegion =
    AWSCloudRegionUSEast1 | AWSCloudRegionUSWest1 | AWSCloudRegionUSWest2
  | AWSCloudRegionAPSouth1 | AWSCloudRegionAPNortheast2 | AWSCloudRegionAPSoutheast1
  | AWSCloudRegionAPSoutheast2 | AWSCloudRegionAPNortheast1 | AWSCloudRegionEUCentral1
  | AWSCloudRegionEUWest1 | AWSCloudRegionSAEast1

definition h264Levels :: "H264Level list" where
  "h264Levels =
     [H264Level1, H264Level1b, H264Level1_1, H264Level1_2, H264Level1_3,
      H264Level2, H264Level2_1, H264Level2_2,
      H264Level3, H264Level3_1, H264Level3_2,
      H264Level4, H264Level4_1, H264Level4_2,
      H264Level5, H264Level5_1, H264Level5_2]"

definition s3UrlCloudRegionMap :: "string \<Rightarrow> AWSCloudRegion option" where
  "s3UrlCloudRegionMap = map_of
     [(''s3.amazonaws.com'', AWSCloudRegionUSEast1),
      (''s3-external-1.amazonaws.com'', AWSCloudRegionUSEast1),
      (''s3.dualstack.us-east-1.amazonaws.com'', AWSCloudRegionUSEast1),
      (''s3-us-west-1.amazonaws.com'', AWSCloudRegionUSWest1),
      (''s3.dualstack.us-west-1.amazonaws.com'', AWSCloudRegionUSWest1),
      (''s3-us-west-2.amazonaws.com'', AWSCloudRegionUSWest2),
      (''s3.dualstack.us-west-2.amazonaws.com'', AWSCloudRegionUSWest2),
      (''s3.ap-south-1.amazonaws.com'', AWSCloudRegionAPSouth1),
      (''s3-ap-south-1.amazonaws.com'', AWSCloudRegionAPSouth1),
      (''s3.dualstack.ap-south-1.amazonaws.com'', AWSCloudRegionAPSouth1),
      (''s3.ap-northeast-2.amazonaws.com'', AWSCloudRegionAPNortheast2),
      (''s3-ap-northeast-2.amazonaws.com'', AWSCloudRegionAPNortheast2),
      (''s3.dualstack.ap-northeast-2.amazonaws.com'', AWSCloudRegionAPNortheast2),
      (''s3-ap-southeast-1.amazonaws.com'', AWSCloudRegionAPSoutheast1),
      (''s3.dualstack.ap-southeast-1.amazonaws.com'', AWSCloudRegionAPSoutheast1),
      (''s3-ap-southeast-2.amazonaws.com'', AWSCloudRegionAPSoutheast2),
      (''s3.dualstack.ap-southeast-2.amazonaws.com'', AWSCloudRegionAPSoutheast2),
      (''s3-ap-northeast-1.amazonaws.com'', AWSCloudRegionAPNortheast1),
      (''s3.dualstack.ap-northeast-1.amazonaws.com'', AWSCloudRegionAPNortheast1),
      (''s3.eu-central-1.amazonaws.com'', AWSCloudRegionEUCentral1),
      (''s3-eu-central-1.amazonaws.com'', AWSCloudRegionEUCentral1),
      (''s3.dualstack.eu-central-1.amazonaws.com'', AWSCloudRegionEUCentral1),
      (''s3-eu-west-1.amazonaws.com'', AWSCloudRegionEUWest1),
      (''s3.dualstack.eu-west-1.amazonaws.com'', AWSCloudRegionEUWest1),
      (''s3-sa-east-1.amazonaws.com'', AWSCloudRegionSAEast1),
      (''s3.dualstack.sa-east-1.amazonaws.com'', AWSCloudRegionSAEast1)]"

text \<open>
  The SDK's configuration models, with the fields the adapter reads or writes. Pointer
  fields are options; so are the profile and the level, \<open>None\<close> being the zero value of a
  field that was never set. A value of the custom data (\<^verbatim>\<open>interface{}\<close>) is a string or
  something else.
\<close>

datatype customValue = StringValue string | OtherValue

record AACCodecConfiguration =
  AAC_ID :: "string option"
  AAC_Bitrate :: "int option"
  AAC_SamplingRate :: "real option"

record H264CodecConfiguration =
  H264_ID :: "string option"
  H264_Profile :: "H264Profile option"
  H264_Level :: "H264Level option"
  H264_Width :: "int option"
  H264_Height :: "int option"
  H264_Bitrate :: "int option"
  H264_MaxGOP :: "int option"
  H264_CustomData :: "string \<rightharpoonup> customValue"

record bitmovinPreset =
  Preset_Video :: H264CodecConfiguration
  Preset_Audio :: AACCodecConfiguration

text \<open>
  A response of the SDK: its status, the message the service sent with an error status
  (the adapter never reads it) and the result (\<^verbatim>\<open>Data.Result\<close>). The result of a list call
  holds the total count, a pointer, and the items of the page.
\<close>

record 'r Response =
  Status :: string
  Message :: string
  Result :: 'r

record AACListResult =
  TotalCount :: "int option"
  Items :: "AACCodecConfiguration list"

text \<open>
  The remote service is a collaborator of the adapter. The adapter's operations take the
  calls they make on it as a record of functions over the state \<open>'s\<close> of the remote side:
  each call returns \<^verbatim>\<open>(response, err)\<close>, \<open>Inl err\<close> when \<^verbatim>\<open>err != nil\<close>, with the new state.
\<close>

record 's client =
  aac_List :: "int \<Rightarrow> int \<Rightarrow> 's \<Rightarrow> (error + AACListResult Response) \<times> 's"
  aac_Create :: "AACCodecConfiguration \<Rightarrow> 's \<Rightarrow> (error + AACCodecConfiguration Response) \<times> 's"
  aac_Retrieve :: "string \<Rightarrow> 's \<Rightarrow> (error + AACCodecConfiguration Response) \<times> 's"
  h264_Create :: "H264CodecConfiguration \<Rightarrow> 's \<Rightarrow> (error + H264CodecConfiguration Response) \<times> 's"
  h264_Retrieve :: "string \<Rightarrow> 's \<Rightarrow> (error + H264CodecConfiguration Response) \<times> 's"
  h264_Delete :: "string \<Rightarrow> 's \<Rightarrow> (error + H264CodecConfiguration Response) \<times> 's"

subsection \<open>createVideoPreset\<close>

text \<open>The \<^verbatim>\<open>switch\<close> on the lower-cased profile; \<open>None\<close> is its \<^verbatim>\<open>default\<close> branch.\<close>

definition profileOf :: "string \<Rightarrow> H264Profile option" where
  "profileOf profile =
     (if profile = ''high'' then Some H264ProfileHigh
      else if profile = ''main'' then Some H264ProfileMain
      else if profile = ''baseline'' then Some H264ProfileBaseline
      else if profile = '''' then Some H264ProfileMain
      else None)"

text \<open>
  The loop over \<^verbatim>\<open>h264Levels\<close>: the first entry whose string is the level of the preset;
  \<open>None\<close> when the loop ends with \<^verbatim>\<open>foundLevel\<close> still false.
\<close>

fun findLevel :: "(H264Level \<Rightarrow> string) \<Rightarrow> H264Level list \<Rightarrow> string \<Rightarrow> H264Level option" where
  "findLevel lv [] level = None"
| "findLevel lv (l # ls) level = (if lv l = level then Some l else findLevel lv ls level)"

text \<open>
  The block \<^verbatim>\<open>if s != "" { n, err := strconv.Atoi(s); if err != nil { return nil, err }; ... }\<close>
  of the fields width, height and GOP size: the field stays nil for the empty string.
\<close>

definition optionalField :: "string \<Rightarrow> error + int option" where
  "optionalField s =
     (if s \<noteq> '''' then (case Atoi s of Inl err \<Rightarrow> Inl err | Inr n \<Rightarrow> Inr (Some (int64 n)))
      else Inr None)"

definition createVideoPreset :: "(H264Level \<Rightarrow> string) \<Rightarrow> Preset \<Rightarrow> H264CodecConfiguration result" where
  "createVideoPreset lv preset =
     (case profileOf (ToLower (Video_Profile (Video preset))) of
        None \<Rightarrow> Err (errorString (''Unrecognized H264 Profile: '' @ Video_Profile (Video preset)))
      | Some profile \<Rightarrow>
     (case findLevel lv h264Levels (Video_ProfileLevel (Video preset)) of
        None \<Rightarrow> Err (errorString (''Unrecognized H264 Level: '' @ Video_ProfileLevel (Video preset)))
      | Some level \<Rightarrow>
     (case optionalField (Video_Width (Video preset)) of
        Inl err \<Rightarrow> Err err
      | Inr width \<Rightarrow>
     (case optionalField (Video_Height (Video preset)) of
        Inl err \<Rightarrow> Err err
      | Inr height \<Rightarrow>
     (if Video_Bitrate (Video preset) = '''' then Err (errorString ''Video Bitrate must be set'')
      else
     (case Atoi (Video_Bitrate (Video preset)) of
        Inl err \<Rightarrow> Err err
      | Inr bitrate \<Rightarrow>
     (case optionalField (Video_GopSize (Video preset)) of
        Inl err \<Rightarrow> Err err
      | Inr gopSize \<Rightarrow>
          Ok \<lparr>H264_ID = None, H264_Profile = Some profile, H264_Level = Some level,
              H264_Width = width, H264_Height = height, H264_Bitrate = Some (int64 bitrate),
              H264_MaxGOP = gopSize, H264_CustomData = Map.empty\<rparr>)))))))"

subsection \<open>CreatePreset\<close>

text \<open>
  The scan of the listed audio configurations: the identifier of the first one with the
  bitrate asked for, the empty string when there is none. Both \<^verbatim>\<open>*c.Bitrate\<close> and \<^verbatim>\<open>*c.ID\<close>
  dereference a pointer.
\<close>

fun scanAudioConfigs :: "AACCodecConfiguration list \<Rightarrow> int \<Rightarrow> panic + string" where
  "scanAudioConfigs [] bitrate = Inr ''''"
| "scanAudioConfigs (c # cs) bitrate =
     (case AAC_Bitrate c of
        None \<Rightarrow> Inl NilPointerDereference
      | Some b \<Rightarrow>
          if b = int64 bitrate
          then (case AAC_ID c of None \<Rightarrow> Inl NilPointerDereference | Some i \<Rightarrow> Inr i)
          else scanAudioConfigs cs bitrate)"

text \<open>
  Lines 93 to 135 of \<^verbatim>\<open>CreatePreset\<close>, the part that finds or creates the audio
  configuration: two list calls, the parse of the audio bitrate, the scan, and the create
  call when the scan found nothing.
\<close>

definition findOrCreateAudioConfig :: "'s client \<Rightarrow> Preset \<Rightarrow> 's \<Rightarrow> string result \<times> 's" where
  "findOrCreateAudioConfig p preset s0 =
     (case aac_List p 0 1 s0 of
        (Inl err, s1) \<Rightarrow> (Err err, s1)
      | (Inr response, s1) \<Rightarrow>
     (if Status response = ''ERROR'' then (Err (errorString ''''), s1)
      else
     (case TotalCount (Result response) of
        None \<Rightarrow> (Panic NilPointerDereference, s1)
      | Some totalCount \<Rightarrow>
     (case aac_List p 0 (int64 (totalCount - 1)) s1 of
        (Inl err, s2) \<Rightarrow> (Err err, s2)
      | (Inr response2, s2) \<Rightarrow>
     (if Status response2 = ''ERROR'' then (Err (errorString ''''), s2)
      else
     (case Atoi (Audio_Bitrate (Audio preset)) of
        Inl err \<Rightarrow> (Err err, s2)
      | Inr bitrate \<Rightarrow>
     (case scanAudioConfigs (Items (Result response2)) bitrate of
        Inl pn \<Rightarrow> (Panic pn, s2)
      | Inr audioConfigID \<Rightarrow>
     (if audioConfigID = '''' then
        (case aac_Create p \<lparr>AAC_ID = None, AAC_Bitrate = Some (int64 bitrate),
                            AAC_SamplingRate = Some 48000\<rparr> s2 of
           (Inl err, s3) \<Rightarrow> (Err err, s3)
         | (Inr resp, s3) \<Rightarrow>
             if Status resp = ''ERROR'' then (Err (errorString ''''), s3)
             else (case AAC_ID (Result resp) of
                     None \<Rightarrow> (Panic NilPointerDereference, s3)
                   | Some i \<Rightarrow> (Ok i, s3)))
      else (Ok audioConfigID, s2)))))))))"

text \<open>
  \<^verbatim>\<open>CreatePreset\<close>: the two codec checks, the audio configuration, then the video
  configuration. The error of \<^verbatim>\<open>createVideoPreset\<close> is assigned and never read; the next
  statement stores the custom data through the pointer it returned, which is nil when it
  failed.
\<close>

definition CreatePreset :: "'s client \<Rightarrow> (H264Level \<Rightarrow> string) \<Rightarrow> Preset \<Rightarrow> 's \<Rightarrow> string result \<times> 's" where
  "CreatePreset p lv preset s0 =
     (if ToLower (Audio_Codec (Audio preset)) \<noteq> ''aac''
      then (Err (errorString (''Unsupported Audio codec: '' @ Audio_Codec (Audio preset))), s0)
      else if ToLower (Video_Codec (Video preset)) \<noteq> ''h264''
      then (Err (errorString (''Unsupported Video codec: '' @ Video_Codec (Video preset))), s0)
      else
     (case findOrCreateAudioConfig p preset s0 of
        (Err err, s1) \<Rightarrow> (Err err, s1)
      | (Panic pn, s1) \<Rightarrow> (Panic pn, s1)
      | (Ok audioConfigID, s1) \<Rightarrow>
     (case createVideoPreset lv preset of
        Err err \<Rightarrow> (Panic NilPointerDereference, s1)
      | Panic pn \<Rightarrow> (Panic pn, s1)
      | Ok h264Config \<Rightarrow>
     (case h264_Create p (h264Config\<lparr>H264_CustomData := [''audio'' \<mapsto> StringValue audioConfigID]\<rparr>) s1 of
        (Inl err, s2) \<Rightarrow> (Err err, s2)
      | (Inr respo, s2) \<Rightarrow>
          if Status respo = ''ERROR'' then (Err (errorString ''''), s2)
          else (case H264_ID (Result respo) of
                  None \<Rightarrow> (Panic NilPointerDereference, s2)
                | Some i \<Rightarrow> (Ok i, s2))))))"

subsection \<open>DeletePreset and GetPreset\<close>

definition DeletePreset :: "'s client \<Rightarrow> string \<Rightarrow> 's \<Rightarrow> error option \<times> 's" where
  "DeletePreset p presetID s0 =
     (case h264_Delete p presetID s0 of
        (Inl err, s1) \<Rightarrow> (Some err, s1)
      | (Inr response, s1) \<Rightarrow>
          if Status response = ''ERROR'' then (Some (errorString ''''), s1) else (None, s1))"

text \<open>
  \<^verbatim>\<open>GetPreset\<close> returns the pair \<^verbatim>\<open>(interface{}, error)\<close> as it is: its last statement returns
  the preset together with a non-nil error.
\<close>

definition GetPreset :: "'s client \<Rightarrow> string \<Rightarrow> 's \<Rightarrow> (bitmovinPreset option \<times> error option) \<times> 's" where
  "GetPreset p presetID s0 =
     (case h264_Retrieve p presetID s0 of
        (Inl err, s1) \<Rightarrow> ((None, Some err), s1)
      | (Inr response, s1) \<Rightarrow>
     (if Status response = ''ERROR'' then ((None, Some (errorString '''')), s1)
      else
     (case H264_CustomData (Result response) ''audio'' of
        None \<Rightarrow> ((None, Some (errorString ''No Audio configuration found for Video Preset'')), s1)
      | Some OtherValue \<Rightarrow> ((None, Some (errorString ''Audio Configuration somehow not a string'')), s1)
      | Some (StringValue s) \<Rightarrow>
     (case aac_Retrieve p s s1 of
        (Inl err, s2) \<Rightarrow> ((None, Some err), s2)
      | (Inr audioResponse, s2) \<Rightarrow>
          if Status audioResponse = ''ERROR'' then ((None, Some (errorString '''')), s2)
          else ((Some \<lparr>Preset_Video = Result response, Preset_Audio = Result audioResponse\<rparr>,
                 Some (errorString ''Not implemented'')), s2)))))"

subsection \<open>parseS3URL\<close>

text \<open>
  \<^verbatim>\<open>url.Parse\<close> is the parameter \<open>parse\<close>. \<^verbatim>\<open>s[len(s)-1]\<close> is an index into a slice: out of
  range on an empty slice. The region is looked up after the names are computed; \<open>Err\<close>
  stands for the return of three empty strings with the error.
\<close>

definition parseS3URL :: "(string \<Rightarrow> error + URL) \<Rightarrow> string \<Rightarrow> (string \<times> string \<times> AWSCloudRegion) result" where
  "parseS3URL parse input =
     (case parse input of
        Inl err \<Rightarrow> Err err
      | Inr u \<Rightarrow>
     (case Split (Path u) (CHR ''/'') of
        [] \<Rightarrow> Panic IndexOutOfRange
      | x # xs \<Rightarrow>
     (let fileName = last (x # xs);
          bucketName = TrimPrefix (TrimSuffix (Path u) (''/'' @ fileName)) ''/''
      in (case s3UrlCloudRegionMap (Host u) of
            None \<Rightarrow> Err (errorString (''Unable to determine AWS Region from Host: '' @ Host u))
          | Some cloudRegion \<Rightarrow> Ok (fileName, bucketName, cloudRegion)))))"

subsection \<open>Stand-ins for what lies outside the adapter\<close>

text \<open>
  Modelled from the spec: the strings of the \<^verbatim>\<open>bitmovintypes.H264Level\<close> constants, which the
  SDK declares and the adapter only names. The spec writes the levels as "1", "1b", "1_1":
  each constant gets the suffix of its name. The general theorems hold for every assignment
  \<open>lv\<close>; this one is used where a concrete preset is evaluated.
\<close>

fun levelNames :: "H264Level \<Rightarrow> string" where
  "levelNames H264Level1 = ''1''"
| "levelNames H264Level1b = ''1b''"
| "levelNames H264Level1_1 = ''1_1''"
| "levelNames H264Level1_2 = ''1_2''"
| "levelNames H264Level1_3 = ''1_3''"
| "levelNames H264Level2 = ''2''"
| "levelNames H264Level2_1 = ''2_1''"
| "levelNames H264Level2_2 = ''2_2''"
| "levelNames H264Level3 = ''3''"
| "levelNames H264Level3_1 = ''3_1''"
| "levelNames H264Level3_2 = ''3_2''"
| "levelNames H264Level4 = ''4''"
| "levelNames H264Level4_1 = ''4_1''"
| "levelNames H264Level4_2 = ''4_2''"
| "levelNames H264Level5 = ''5''"
| "levelNames H264Level5_1 = ''5_1''"
| "levelNames H264Level5_2 = ''5_2''"

text \<open>
  Modelled from the spec: \<^verbatim>\<open>url.Parse\<close> of Go's standard library on the storage URLs of the
  spec, "any \<^verbatim>\<open>scheme://host/path/to/object\<close> form": the host is what stands between
  \<^verbatim>\<open>://\<close> and the next slash, the path is the rest, from that slash on. An input of another
  form is refused here (Go parses more forms than this one); the general theorems take the
  parser as the parameter \<open>parse\<close>.
\<close>

definition parseSchemeHostPath :: "string \<Rightarrow> error + URL" where
  "parseSchemeHostPath rawURL =
     (let rest = dropWhile (\<lambda>c. c \<noteq> CHR '':'') rawURL
      in if prefix ''://'' rest
         then Inr \<lparr>Host = takeWhile (\<lambda>c. c \<noteq> CHR ''/'') (drop 3 rest),
                   Path = dropWhile (\<lambda>c. c \<noteq> CHR ''/'') (drop 3 rest)\<rparr>
         else Inl (Forwarded ''parse: not of the form scheme://host/path''))"

text \<open>The zero values of the two configuration structs.\<close>

definition zeroAAC :: AACCodecConfiguration where
  "zeroAAC = \<lparr>AAC_ID = None, AAC_Bitrate = None, AAC_SamplingRate = None\<rparr>"

definition zeroH264 :: H264CodecConfiguration where
  "zeroH264 = \<lparr>H264_ID = None, H264_Profile = None, H264_Level = None, H264_Width = None,
               H264_Height = None, H264_Bitrate = None, H264_MaxGOP = None,
               H264_CustomData = Map.empty\<rparr>"

text \<open>
  Modelled from the spec: the "simulated remote service" on which the spec counts calls; the
  remote service itself is not part of the repository. It keeps the audio and the video
  configurations in the order of their creation, numbers the identifiers it issues, and
  logs every call. A list call with \<open>offset\<close> and \<open>limit\<close> answers with the total count and
  with at most \<open>limit\<close> items, starting at \<open>offset\<close>. Retrieving or deleting an unknown
  identifier is answered with the status \<^verbatim>\<open>ERROR\<close>.
\<close>

datatype call =
    ListAAC int int | CreateAAC | RetrieveAAC string
  | CreateH264 | RetrieveH264 string | DeleteH264 string

record remote =
  audioConfigs :: "AACCodecConfiguration list"
  videoConfigs :: "H264CodecConfiguration list"
  issued :: nat
  calls :: "call list"

definition newID :: "string \<Rightarrow> nat \<Rightarrow> string" where
  "newID kind n = kind @ replicate (Suc n) (CHR ''i'')"

definition success :: "'r \<Rightarrow> error + 'r Response" where
  "success r = Inr \<lparr>Status = ''SUCCESS'', Message = '''', Result = r\<rparr>"

definition notFound :: "'r \<Rightarrow> error + 'r Response" where
  "notFound r = Inr \<lparr>Status = ''ERROR'', Message = ''not found'', Result = r\<rparr>"

definition sim_aac_List :: "int \<Rightarrow> int \<Rightarrow> remote \<Rightarrow> (error + AACListResult Response) \<times> remote" where
  "sim_aac_List offset limit s =
     (success \<lparr>TotalCount = Some (int (length (audioConfigs s))),
               Items = take (nat limit) (drop (nat offset) (audioConfigs s))\<rparr>,
      s\<lparr>calls := calls s @ [ListAAC offset limit]\<rparr>)"

definition sim_aac_Create :: "AACCodecConfiguration \<Rightarrow> remote \<Rightarrow> (error + AACCodecConfiguration Response) \<times> remote" where
  "sim_aac_Create c s =
     (success (c\<lparr>AAC_ID := Some (newID ''aac-'' (issued s))\<rparr>),
      s\<lparr>audioConfigs := audioConfigs s @ [c\<lparr>AAC_ID := Some (newID ''aac-'' (issued s))\<rparr>],
        issued := Suc (issued s), calls := calls s @ [CreateAAC]\<rparr>)"

definition sim_aac_Retrieve :: "string \<Rightarrow> remote \<Rightarrow> (error + AACCodecConfiguration Response) \<times> remote" where
  "sim_aac_Retrieve i s =
     ((case find (\<lambda>c. AAC_ID c = Some i) (audioConfigs s) of
         None \<Rightarrow> notFound zeroAAC
       | Some c \<Rightarrow> success c),
      s\<lparr>calls := calls s @ [RetrieveAAC i]\<rparr>)"

definition sim_h264_Create :: "H264CodecConfiguration \<Rightarrow> remote \<Rightarrow> (error + H264CodecConfiguration Response) \<times> remote" where
  "sim_h264_Create c s =
     (success (c\<lparr>H264_ID := Some (newID ''h264-'' (issued s))\<rparr>),
      s\<lparr>videoConfigs := videoConfigs s @ [c\<lparr>H264_ID := Some (newID ''h264-'' (issued s))\<rparr>],
        issued := Suc (issued s), calls := calls s @ [CreateH264]\<rparr>)"

definition sim_h264_Retrieve :: "string \<Rightarrow> remote \<Rightarrow> (error + H264CodecConfiguration Response) \<times> remote" where
  "sim_h264_Retrieve i s =
     ((case find (\<lambda>c. H264_ID c = Some i) (videoConfigs s) of
         None \<Rightarrow> notFound zeroH264
       | Some c \<Rightarrow> success c),
      s\<lparr>calls := calls s @ [RetrieveH264 i]\<rparr>)"

definition sim_h264_Delete :: "string \<Rightarrow> remote \<Rightarrow> (error + H264CodecConfiguration Response) \<times> remote" where
  "sim_h264_Delete i s =
     ((case find (\<lambda>c. H264_ID c = Some i) (videoConfigs s) of
         None \<Rightarrow> notFound zeroH264
       | Some c \<Rightarrow> success c),
      s\<lparr>videoConfigs := filter (\<lambda>c. H264_ID c \<noteq> Some i) (videoConfigs s),
        calls := calls s @ [DeleteH264 i]\<rparr>)"

definition simulated :: "remote client" where
  "simulated =
     \<lparr>aac_List = sim_aac_List, aac_Create = sim_aac_Create, aac_Retrieve = sim_aac_Retrieve,
      h264_Create = sim_h264_Create, h264_Retrieve = sim_h264_Retrieve,
      h264_Delete = sim_h264_Delete\<rparr>"

definition emptyRemote :: remote where
  "emptyRemote = \<lparr>audioConfigs = [], videoConfigs = [], issued = 0, calls = []\<rparr>"



text \<open>A preset with valid fields, from which the concrete inputs below are made.\<close>

definition validPreset :: Preset where
  "validPreset =
     \<lparr>Video = \<lparr>Video_Codec = ''h264'', Video_Profile = ''Main'', Video_ProfileLevel = ''1'',
                Video_Width = ''1280'', Video_Height = '''', Video_Bitrate = ''1000000'',
                Video_GopSize = ''90''\<rparr>,
      Audio = \<lparr>Audio_Codec = ''AAC'', Audio_Bitrate = ''128000''\<rparr>\<rparr>"

text \<open>
  The state of the simulated service after \<open>validPreset\<close> was created on the empty service,
  and after it was created a second time.
\<close>

definition afterFirst :: remote where
  "afterFirst =
     \<lparr>audioConfigs =
        [\<lparr>AAC_ID = Some ''aac-i'', AAC_Bitrate = Some 128000, AAC_SamplingRate = Some 48000\<rparr>],
      videoConfigs =
        [\<lparr>H264_ID = Some ''h264-ii'', H264_Profile = Some H264ProfileMain,
          H264_Level = Some H264Level1, H264_Width = Some 1280, H264_Height = None,
          H264_Bitrate = Some 1000000, H264_MaxGOP = Some 90,
          H264_CustomData = [''audio'' \<mapsto> StringValue ''aac-i'']\<rparr>],
      issued = 2,
      calls = [ListAAC 0 1, ListAAC 0 (- 1), CreateAAC, CreateH264]\<rparr>"

definition afterSecond :: remote where
  "afterSecond =
     \<lparr>audioConfigs =
        [\<lparr>AAC_ID = Some ''aac-i'', AAC_Bitrate = Some 128000, AAC_SamplingRate = Some 48000\<rparr>,
         \<lparr>AAC_ID = Some ''aac-iii'', AAC_Bitrate = Some 128000, AAC_SamplingRate = Some 48000\<rparr>],
      videoConfigs =
        [\<lparr>H264_ID = Some ''h264-ii'', H264_Profile = Some H264ProfileMain,
          H264_Level = Some H264Level1, H264_Width = Some 1280, H264_Height = None,
          H264_Bitrate = Some 1000000, H264_MaxGOP = Some 90,
          H264_CustomData = [''audio'' \<mapsto> StringValue ''aac-i'']\<rparr>,
         \<lparr>H264_ID = Some ''h264-iiii'', H264_Profile = Some H264ProfileMain,
          H264_Level = Some H264Level1, H264_Width = Some 1280, H264_Height = None,
          H264_Bitrate = Some 1000000, H264_MaxGOP = Some 90,
          H264_CustomData = [''audio'' \<mapsto> StringValue ''aac-iii'']\<rparr>],
      issued = 4,
      calls = [ListAAC 0 1, ListAAC 0 (- 1), CreateAAC, CreateH264,
               ListAAC 0 1, ListAAC 0 0, CreateAAC, CreateH264]\<rparr>"

subsection \<open>What an error value carries\<close>



section \<open>Properties\<close>

subsection \<open>Evaluation and library facts\<close>

lemmas ToLower_eval = toLowerByte_def char_of_def bit_Suc_0_iff

lemma replicate_numeral: "replicate (numeral k) x = x # replicate (pred_numeral k) x"
  by (simp add: numeral_eq_Suc)

lemmas Atoi_eval = Atoi_def isDigit_def int64_def

lemmas simulated_eval =
  simulated_def sim_aac_List_def sim_aac_Create_def sim_aac_Retrieve_def
  sim_h264_Create_def sim_h264_Retrieve_def sim_h264_Delete_def
  success_def notFound_def newID_def emptyRemote_def zeroAAC_def zeroH264_def replicate_numeral


lemmas adapter_eval =
  CreatePreset_def findOrCreateAudioConfig_def createVideoPreset_def profileOf_def
  optionalField_def h264Levels_def GetPreset_def DeletePreset_def

lemma Split_not_Nil: "Split s sep \<noteq> []"
  by (induction s) (auto split: list.splits)

lemma Split_no_sep: "sep \<notin> set f \<Longrightarrow> Split f sep = [f]"
  by (induction f) auto

lemma Split_append_sep: "Split (b @ sep # f) sep = Split b sep @ Split f sep"
proof (induction b)
  case Nil
  show ?case by simp
next
  case (Cons c b)
  obtain x xs where "Split b sep = x # xs"
    using Split_not_Nil [of b sep] by (cases "Split b sep") auto
  with Cons show ?case by simp
qed

lemma last_Split: "sep \<notin> set f \<Longrightarrow> last (Split (b @ sep # f) sep) = f"
  by (simp add: Split_append_sep Split_no_sep)

lemma TrimSuffix_append: "TrimSuffix (a @ b) b = a"
  by (simp add: TrimSuffix_def suffix_def)

lemma TrimPrefix_append: "TrimPrefix (a @ b) a = b"
  by (simp add: TrimPrefix_def)

subsection \<open>The storage location\<close>

text \<open>
  C7: when the URL parses to a host of the region table and to a path \<^verbatim>\<open>/bucket/file\<close> whose
  last segment \<open>file\<close> has no slash, \<open>parseS3URL\<close> returns the file name \<open>file\<close>, the bucket
  name \<open>bucket\<close> (the path without the file name, its leading slash and the slash before the
  file name) and the region of the host. For
  \<^verbatim>\<open>https://s3-us-west-2.amazonaws.com/mybucket/path/video.mp4\<close> that is \<^verbatim>\<open>video.mp4\<close>,
  \<^verbatim>\<open>mybucket/path\<close> and US-West-2 (the witness).
\<close>

theorem parseS3URL_names:
  assumes "parse input = Inr u"
    and "Path u = ''/'' @ bucket @ ''/'' @ file"
    and "CHR ''/'' \<notin> set file"
    and "s3UrlCloudRegionMap (Host u) = Some region"
  shows "parseS3URL parse input = Ok (file, bucket, region)"
proof -
  have p: "Path u = (''/'' @ bucket) @ CHR ''/'' # file"
    using assms(2) by simp
  have l: "last (Split (Path u) (CHR ''/'')) = file"
    unfolding p using assms(3) by (rule last_Split)
  have t: "TrimSuffix (Path u) (''/'' @ file) = ''/'' @ bucket"
    using TrimSuffix_append [of "''/'' @ bucket" "''/'' @ file"] assms(2) by simp
  have b: "TrimPrefix (''/'' @ bucket) ''/'' = bucket"
    by (rule TrimPrefix_append)
  obtain x xs where s: "Split (Path u) (CHR ''/'') = x # xs"
    using Split_not_Nil [of "Path u" "CHR ''/''"] by (cases "Split (Path u) (CHR ''/'')") auto
  have l': "last (x # xs) = file" using l s by simp
  show ?thesis
    unfolding parseS3URL_def Let_def using assms(1,4) s l' t b
    by (simp del: last.simps)
qed

theorem parseS3URL_names_witness:
  "parseS3URL parseSchemeHostPath ''https://s3-us-west-2.amazonaws.com/mybucket/path/video.mp4''
     = Ok (''video.mp4'', ''mybucket/path'', AWSCloudRegionUSWest2)"
  using parseS3URL_names [of parseSchemeHostPath
      "''https://s3-us-west-2.amazonaws.com/mybucket/path/video.mp4''"
      "\<lparr>Host = ''s3-us-west-2.amazonaws.com'', Path = ''/mybucket/path/video.mp4''\<rparr>"
      "''mybucket/path''" "''video.mp4''" AWSCloudRegionUSWest2]
  by (simp add: parseSchemeHostPath_def s3UrlCloudRegionMap_def)

text \<open>
  C10: \<open>parseS3URL\<close> never panics: splitting a path, the empty one too, gives at least one
  piece, so the index of the last piece is in range. For every input it returns an error or
  a triple of file name, bucket name and region, and it returns an error exactly when the
  URL does not parse or its host is not in the region table.
\<close>

theorem parseS3URL_total:
  "Split path (CHR ''/'') \<noteq> []
   \<and> parseS3URL parse input \<noteq> Panic pn
   \<and> ((\<exists>err. parseS3URL parse input = Err err)
        \<or> (\<exists>fileName bucketName cloudRegion.
              parseS3URL parse input = Ok (fileName, bucketName, cloudRegion)))
   \<and> ((\<exists>err. parseS3URL parse input = Err err)
        = ((\<exists>err. parse input = Inl err)
           \<or> (\<exists>u. parse input = Inr u \<and> s3UrlCloudRegionMap (Host u) = None)))"
proof -
  have n: "Split path (CHR ''/'') \<noteq> []" for path
    by (rule Split_not_Nil)
  show ?thesis
  proof (cases "parse input")
    case (Inl err)
    then show ?thesis using n by (simp add: parseS3URL_def)
  next
    case (Inr u)
    obtain x xs where s: "Split (Path u) (CHR ''/'') = x # xs"
      using n [of "Path u"] by (cases "Split (Path u) (CHR ''/'')") auto
    show ?thesis
      using Inr s n [of path]
      by (cases "s3UrlCloudRegionMap (Host u)") (simp_all add: parseS3URL_def Let_def del: last.simps)
  qed
qed

theorem parseS3URL_total_witness:
  "parseS3URL parseSchemeHostPath ''https://s3.amazonaws.com'' = Ok ('''', '''', AWSCloudRegionUSEast1)
   \<and> parseS3URL parseSchemeHostPath ''https://s3.amazonaws.com'' \<noteq> Panic IndexOutOfRange
   \<and> Split '''' (CHR ''/'') \<noteq> []"
  using parseS3URL_total [of "''''" parseSchemeHostPath "''https://s3.amazonaws.com''" IndexOutOfRange]
  by (simp add: parseS3URL_def parseSchemeHostPath_def s3UrlCloudRegionMap_def TrimPrefix_def TrimSuffix_def)

subsection \<open>The codec checks\<close>

text \<open>
  C5: when the audio codec is not "aac" or the video codec is not "h264", compared without
  regard to case, \<open>CreatePreset\<close> returns an error that names the kind (Audio or Video) and
  the value of the codec. It does so for every client and leaves the state of the remote
  side as it was: no call is made (on the simulated service of the witness, the log of
  calls stays empty).
\<close>

theorem CreatePreset_unsupported_codec:
  assumes "ToLower (Audio_Codec (Audio preset)) \<noteq> ''aac''
           \<or> ToLower (Video_Codec (Video preset)) \<noteq> ''h264''"
  shows "CreatePreset p lv preset s =
           (Err (errorString
              (if ToLower (Audio_Codec (Audio preset)) \<noteq> ''aac''
               then ''Unsupported Audio codec: '' @ Audio_Codec (Audio preset)
               else ''Unsupported Video codec: '' @ Video_Codec (Video preset))), s)"
  using assms by (auto simp: CreatePreset_def)

theorem CreatePreset_unsupported_codec_witness:
  "CreatePreset simulated levelNames
       (validPreset\<lparr>Audio := \<lparr>Audio_Codec = ''mp3'', Audio_Bitrate = ''128000''\<rparr>\<rparr>) emptyRemote
     = (Err (errorString ''Unsupported Audio codec: mp3''), emptyRemote)
   \<and> CreatePreset simulated levelNames
       (validPreset\<lparr>Video := (Video validPreset)\<lparr>Video_Codec := ''VP9''\<rparr>\<rparr>) emptyRemote
     = (Err (errorString ''Unsupported Video codec: VP9''), emptyRemote)"
  using CreatePreset_unsupported_codec [of
          "validPreset\<lparr>Audio := \<lparr>Audio_Codec = ''mp3'', Audio_Bitrate = ''128000''\<rparr>\<rparr>"
          simulated levelNames emptyRemote]
        CreatePreset_unsupported_codec [of
          "validPreset\<lparr>Video := (Video validPreset)\<lparr>Video_Codec := ''VP9''\<rparr>\<rparr>"
          simulated levelNames emptyRemote]
  by (simp add: validPreset_def ToLower_eval)

subsection \<open>The level of the video configuration\<close>

lemma findLevel_find: "findLevel lv ls level = find (\<lambda>l. lv l = level) ls"
  by (induction ls) auto

lemma findLevel_Some: "findLevel lv ls level = Some l \<Longrightarrow> l \<in> set ls \<and> lv l = level"
  by (induction ls) (auto split: if_splits)

lemma findLevel_None: "(findLevel lv ls level = None) = (\<forall>l\<in>set ls. lv l \<noteq> level)"
  by (induction ls) auto

lemma createVideoPreset_Ok_level:
  "createVideoPreset lv preset = Ok h \<Longrightarrow>
     \<exists>l. H264_Level h = Some l
       \<and> findLevel lv h264Levels (Video_ProfileLevel (Video preset)) = Some l"
  by (auto simp: createVideoPreset_def split: option.splits sum.splits if_splits)

text \<open>
  C6, as amended: the level of the preset is mapped by a linear search for an exact match.
  When the translation succeeds, the level of the configuration is the first entry of
  \<open>h264Levels\<close> whose string equals the level string of the preset; an entry with any other
  string is never taken, and for the string of the entry "1" the result is that entry.
  When no entry has the string and the profile is recognised, the translation fails with
  the error "Unrecognized H264 Level". (The profile is checked first: with an unrecognised
  profile the error is the one of the profile, which is the counterexample to the claim as
  it was stated.)
\<close>

theorem createVideoPreset_level:
  "(createVideoPreset lv preset = Ok h \<longrightarrow>
      H264_Level h = find (\<lambda>l. lv l = Video_ProfileLevel (Video preset)) h264Levels
      \<and> (\<exists>l\<in>set h264Levels. H264_Level h = Some l \<and> lv l = Video_ProfileLevel (Video preset)))
   \<and> (profileOf (ToLower (Video_Profile (Video preset))) \<noteq> None
        \<and> (\<forall>l\<in>set h264Levels. lv l \<noteq> Video_ProfileLevel (Video preset)) \<longrightarrow>
      createVideoPreset lv preset
        = Err (errorString (''Unrecognized H264 Level: '' @ Video_ProfileLevel (Video preset))))
   \<and> (Video_ProfileLevel (Video preset) = lv H264Level1 \<and> createVideoPreset lv preset = Ok h \<longrightarrow>
      H264_Level h = Some H264Level1)"
proof (intro conjI impI)
  assume ok: "createVideoPreset lv preset = Ok h"
  from createVideoPreset_Ok_level [OF ok]
  obtain l where l: "H264_Level h = Some l"
    and f: "findLevel lv h264Levels (Video_ProfileLevel (Video preset)) = Some l"
    by auto
  show "H264_Level h = find (\<lambda>l. lv l = Video_ProfileLevel (Video preset)) h264Levels"
    using l f by (simp add: findLevel_find)
  show "\<exists>l\<in>set h264Levels. H264_Level h = Some l \<and> lv l = Video_ProfileLevel (Video preset)"
    using l findLevel_Some [OF f] by auto
next
  assume a: "profileOf (ToLower (Video_Profile (Video preset))) \<noteq> None
        \<and> (\<forall>l\<in>set h264Levels. lv l \<noteq> Video_ProfileLevel (Video preset))"
  then have "findLevel lv h264Levels (Video_ProfileLevel (Video preset)) = None"
    by (simp add: findLevel_None)
  with a show "createVideoPreset lv preset
        = Err (errorString (''Unrecognized H264 Level: '' @ Video_ProfileLevel (Video preset)))"
    by (auto simp: createVideoPreset_def)
next
  assume a: "Video_ProfileLevel (Video preset) = lv H264Level1 \<and> createVideoPreset lv preset = Ok h"
  then have "\<exists>l. H264_Level h = Some l \<and> findLevel lv h264Levels (lv H264Level1) = Some l"
    using createVideoPreset_Ok_level [of lv preset h] by simp
  then show "H264_Level h = Some H264Level1"
    by (simp add: h264Levels_def)
qed

theorem createVideoPreset_level_witness:
  "createVideoPreset levelNames validPreset
     = Ok \<lparr>H264_ID = None, H264_Profile = Some H264ProfileMain, H264_Level = Some H264Level1,
           H264_Width = Some 1280, H264_Height = None, H264_Bitrate = Some 1000000,
           H264_MaxGOP = Some 90, H264_CustomData = Map.empty\<rparr>
   \<and> find (\<lambda>l. levelNames l = ''1'') h264Levels = Some H264Level1
   \<and> createVideoPreset levelNames
        (validPreset\<lparr>Video := (Video validPreset)\<lparr>Video_ProfileLevel := ''9''\<rparr>\<rparr>)
     = Err (errorString ''Unrecognized H264 Level: 9'')"
  using createVideoPreset_level [of levelNames validPreset
          "\<lparr>H264_ID = None, H264_Profile = Some H264ProfileMain, H264_Level = Some H264Level1,
           H264_Width = Some 1280, H264_Height = None, H264_Bitrate = Some 1000000,
           H264_MaxGOP = Some 90, H264_CustomData = Map.empty\<rparr>"]
        createVideoPreset_level [of levelNames
          "validPreset\<lparr>Video := (Video validPreset)\<lparr>Video_ProfileLevel := ''9''\<rparr>\<rparr>" zeroH264]
  by (simp add: validPreset_def adapter_eval Atoi_eval ToLower_eval)

theorem createVideoPreset_level_counterexample:
  "findLevel levelNames h264Levels ''9'' = None
   \<and> createVideoPreset levelNames
        (validPreset\<lparr>Video := (Video validPreset)\<lparr>Video_Profile := ''ultra'',
                                                   Video_ProfileLevel := ''9''\<rparr>\<rparr>)
     = Err (errorString ''Unrecognized H264 Profile: ultra'')"
  by (simp add: validPreset_def adapter_eval ToLower_eval)

subsection \<open>The numeric fields\<close>

















subsection \<open>The error of createVideoPreset inside CreatePreset\<close>

lemma CreatePreset_video_error_panics:
  "ToLower (Audio_Codec (Audio preset)) = ''aac'' \<Longrightarrow>
   ToLower (Video_Codec (Video preset)) = ''h264'' \<Longrightarrow>
   findOrCreateAudioConfig p preset s = (Ok audioConfigID, s1) \<Longrightarrow>
   createVideoPreset lv preset = Err e \<Longrightarrow>
   CreatePreset p lv preset s = (Panic NilPointerDereference, s1)"
  by (simp add: CreatePreset_def)

text \<open>
  C2: the code at the failing input. The preset passes both codec checks and has the
  profile "ultra". \<open>createVideoPreset\<close> returns the error of the profile, and \<open>CreatePreset\<close>,
  which does not look at that error, panics on the nil configuration instead of returning
  it. The lemma above shows the same for every client and every error of
  \<open>createVideoPreset\<close>.
\<close>

theorem CreatePreset_unchecked_error_panics:
  "createVideoPreset levelNames
       (validPreset\<lparr>Video := (Video validPreset)\<lparr>Video_Profile := ''ultra''\<rparr>\<rparr>)
     = Err (errorString ''Unrecognized H264 Profile: ultra'')
   \<and> fst (CreatePreset simulated levelNames
             (validPreset\<lparr>Video := (Video validPreset)\<lparr>Video_Profile := ''ultra''\<rparr>\<rparr>) emptyRemote)
     = Panic NilPointerDereference"
  by (simp add: validPreset_def adapter_eval simulated_eval Atoi_eval ToLower_eval)

subsection \<open>Two presets with the same audio bitrate\<close>

lemma CreatePreset_first:
  "CreatePreset simulated levelNames validPreset emptyRemote = (Ok ''h264-ii'', afterFirst)"
  by (simp add: afterFirst_def validPreset_def adapter_eval simulated_eval Atoi_eval ToLower_eval)

lemma CreatePreset_second:
  "CreatePreset simulated levelNames validPreset afterFirst = (Ok ''h264-iiii'', afterSecond)"
  by (simp add: afterFirst_def afterSecond_def validPreset_def adapter_eval simulated_eval
        Atoi_eval ToLower_eval)

text \<open>
  C3: the code at the failing input. The same preset is created twice on the empty
  simulated service. The second list call of each run asks for \<open>totalCount - 1\<close> items: for
  no item at all in the second run, where one audio configuration exists. The scan then
  finds nothing, and the log shows a second create call for an audio configuration: two
  audio configurations of the same bitrate exist afterwards.
\<close>

theorem CreatePreset_twice_two_audio_configs:
  "calls (snd (CreatePreset simulated levelNames validPreset
                 (snd (CreatePreset simulated levelNames validPreset emptyRemote))))
     = [ListAAC 0 1, ListAAC 0 (- 1), CreateAAC, CreateH264,
        ListAAC 0 1, ListAAC 0 0, CreateAAC, CreateH264]
   \<and> map AAC_Bitrate (audioConfigs (snd (CreatePreset simulated levelNames validPreset
                 (snd (CreatePreset simulated levelNames validPreset emptyRemote)))))
     = [Some 128000, Some 128000]"
  unfolding CreatePreset_first
  by (simp add: afterFirst_def validPreset_def adapter_eval simulated_eval Atoi_eval ToLower_eval)

subsection \<open>Reading a preset back\<close>

lemma GetPreset_error_never_nil: "snd (fst (GetPreset p presetID s)) \<noteq> None"
  by (simp add: GetPreset_def split: prod.splits sum.splits option.splits customValue.splits)

text \<open>
  C1: the code at the failing input. \<open>validPreset\<close> is created on the empty simulated
  service; \<open>CreatePreset\<close> returns the handle. \<open>GetPreset\<close> of that handle returns the video
  and the audio configuration with the profile, level and bitrates of the preset, and with
  them the error "Not implemented": not a nil error. The lemma above shows that no call of
  \<open>GetPreset\<close> returns a nil error.
\<close>

theorem GetPreset_not_implemented:
  "fst (CreatePreset simulated levelNames validPreset emptyRemote) = Ok ''h264-ii''
   \<and> fst (GetPreset simulated ''h264-ii''
            (snd (CreatePreset simulated levelNames validPreset emptyRemote)))
     = (Some \<lparr>Preset_Video = \<lparr>H264_ID = Some ''h264-ii'', H264_Profile = Some H264ProfileMain,
                 H264_Level = Some H264Level1, H264_Width = Some 1280, H264_Height = None,
                 H264_Bitrate = Some 1000000, H264_MaxGOP = Some 90,
                 H264_CustomData = [''audio'' \<mapsto> StringValue ''aac-i'']\<rparr>,
              Preset_Audio = \<lparr>AAC_ID = Some ''aac-i'', AAC_Bitrate = Some 128000,
                 AAC_SamplingRate = Some 48000\<rparr>\<rparr>,
        Some (errorString ''Not implemented''))"
  unfolding CreatePreset_first
  by (simp add: afterFirst_def GetPreset_def simulated_eval)

subsection \<open>Error statuses of the remote service\<close>




subsection \<open>Deleting a preset\<close>

lemma findOrCreateAudioConfig_simulated_frame:
  "audioConfigs s' = audioConfigs s \<Longrightarrow> issued s' = issued s \<Longrightarrow>
     fst (findOrCreateAudioConfig simulated preset s')
       = fst (findOrCreateAudioConfig simulated preset s)"
  by (simp add: findOrCreateAudioConfig_def simulated_def sim_aac_List_def sim_aac_Create_def
        success_def split: sum.splits option.splits)

lemma DeletePreset_state: "snd (DeletePreset p presetID s) = snd (h264_Delete p presetID s)"
  by (simp add: DeletePreset_def split: prod.splits sum.splits)

lemma DeletePreset_simulated_state:
  "snd (DeletePreset simulated presetID s)
     = s\<lparr>videoConfigs := filter (\<lambda>c. H264_ID c \<noteq> Some presetID) (videoConfigs s),
         calls := calls s @ [DeleteH264 presetID]\<rparr>"
  by (simp add: DeletePreset_state simulated_def sim_h264_Delete_def)

lemma lookup_afterSecond:
  "fst (findOrCreateAudioConfig simulated validPreset afterSecond) = Ok ''aac-i''"
  by (simp add: afterSecond_def validPreset_def findOrCreateAudioConfig_def simulated_eval Atoi_eval)

lemma delete_afterSecond:
  "fst (DeletePreset simulated ''h264-ii'' afterSecond) = None"
  by (simp add: afterSecond_def DeletePreset_def simulated_eval)

text \<open>
  C9: \<open>DeletePreset\<close> makes one remote call, the delete call on the video configuration of
  the handle: for every client the state it leaves is the state that call leaves. On the
  simulated service the log grows by that one call, the audio configurations are what they
  were, and finding or creating the audio configuration of any preset gives after
  \<open>DeletePreset\<close> the result it gives before.
\<close>

theorem DeletePreset_leaves_audio:
  "snd (DeletePreset p presetID s0) = snd (h264_Delete p presetID s0)
   \<and> calls (snd (DeletePreset simulated presetID s)) = calls s @ [DeleteH264 presetID]
   \<and> audioConfigs (snd (DeletePreset simulated presetID s)) = audioConfigs s
   \<and> fst (findOrCreateAudioConfig simulated preset (snd (DeletePreset simulated presetID s)))
       = fst (findOrCreateAudioConfig simulated preset s)"
proof -
  have "fst (findOrCreateAudioConfig simulated preset (snd (DeletePreset simulated presetID s)))
          = fst (findOrCreateAudioConfig simulated preset s)"
    by (rule findOrCreateAudioConfig_simulated_frame) (simp_all add: DeletePreset_simulated_state)
  then show ?thesis
    by (simp add: DeletePreset_state [of p] DeletePreset_simulated_state)
qed

theorem DeletePreset_leaves_audio_witness:
  "fst (DeletePreset simulated ''h264-ii'' afterSecond) = None
   \<and> fst (findOrCreateAudioConfig simulated validPreset
          (snd (DeletePreset simulated ''h264-ii'' afterSecond))) = Ok ''aac-i''"
  using DeletePreset_leaves_audio [of simulated "''h264-ii''" afterSecond afterSecond validPreset]
  by (simp add: delete_afterSecond lookup_afterSecond DeletePreset_state)

end
